theory Spec2Isabelle
  imports
    Complex_Main
    "HOL-Library.Word"
    "HOL-Library.Multiset"
    "HOL-Library.Char_ord"
    "HOL-Library.List_Lexorder"
    "HOL-Library.Product_Lexorder"
begin

section \<open>Superstore analysis: a shallow embedding of \<open>superstore_analysis.py\<close>\<close>

text \<open>
  The script is one batch run made of five stages, each inside its own
  \<^verbatim>\<open>try/except\<close>: loading, preparation, KPIs, visualisations and the dashboard.
  Every stage is embedded as a function; what the script gets from its libraries
  (the bytes of the file, the CSV parser, the plotting calls, the directory listing)
  is a parameter of the function that uses it.

  Text the script handles (column names, file names, messages) is a \<^typ>\<open>string\<close>
  whose characters stand for the code points 0 to 255. Numbers are exact rationals:
  the rounding of binary floating point is outside this development.
\<close>

subsection \<open>Exceptions\<close>

datatype exn =
    FileNotFoundError string
  | UnicodeDecodeError
  | LookupError string
  | ValueError string
  | TypeError string
  | OtherError string

subsection \<open>Loading: the codecs behind \<open>pd.read_csv(data_path, encoding=encoding)\<close>\<close>

type_synonym byte = "8 word"

text \<open>Decoded text is a list of Unicode code points.\<close>

definition cont :: "nat \<Rightarrow> nat \<Rightarrow> byte \<Rightarrow> bool" where
  "cont lo hi c = (lo \<le> unat c \<and> unat c \<le> hi)"

definition cons_opt :: "nat \<Rightarrow> nat list option \<Rightarrow> nat list option" where
  "cons_opt c r = (case r of None \<Rightarrow> None | Some t \<Rightarrow> Some (c # t))"

definition lo6 :: "byte \<Rightarrow> nat" where
  "lo6 c = unat c - 0x80"

text \<open>
  The strict UTF-8 decoder of Python: shortest form only, no surrogates, nothing above
  U+10FFFF. \<open>None\<close> is the \<^verbatim>\<open>UnicodeDecodeError\<close>.
\<close>

fun utf8_decode :: "byte list \<Rightarrow> nat list option" where
  "utf8_decode [] = Some []"
| "utf8_decode (b # bs) =
     (let n = unat b in
      if n < 0x80 then cons_opt n (utf8_decode bs)
      else if 0xC2 \<le> n \<and> n \<le> 0xDF then
        (case bs of
           c1 # r \<Rightarrow>
             if cont 0x80 0xBF c1
             then cons_opt ((n - 0xC0) * 64 + lo6 c1) (utf8_decode r)
             else None
         | _ \<Rightarrow> None)
      else if 0xE0 \<le> n \<and> n \<le> 0xEF then
        (case bs of
           c1 # c2 # r \<Rightarrow>
             if cont (if n = 0xE0 then 0xA0 else 0x80) (if n = 0xED then 0x9F else 0xBF) c1
                \<and> cont 0x80 0xBF c2
             then cons_opt ((n - 0xE0) * 4096 + lo6 c1 * 64 + lo6 c2) (utf8_decode r)
             else None
         | _ \<Rightarrow> None)
      else if 0xF0 \<le> n \<and> n \<le> 0xF4 then
        (case bs of
           c1 # c2 # c3 # r \<Rightarrow>
             if cont (if n = 0xF0 then 0x90 else 0x80) (if n = 0xF4 then 0x8F else 0xBF) c1
                \<and> cont 0x80 0xBF c2 \<and> cont 0x80 0xBF c3
             then cons_opt ((n - 0xF0) * 262144 + lo6 c1 * 4096 + lo6 c2 * 64 + lo6 c3)
                    (utf8_decode r)
             else None
         | _ \<Rightarrow> None)
      else None)"

text \<open>
  \<^verbatim>\<open>latin1\<close> and \<^verbatim>\<open>ISO-8859-1\<close> name the same codec: byte \<open>b\<close> is code point
  \<open>b\<close>, for every byte.
\<close>

definition latin1_decode :: "byte list \<Rightarrow> nat list" where
  "latin1_decode bs = map unat bs"

text \<open>
  \<^verbatim>\<open>cp1252\<close>: the bytes 0x81, 0x8D, 0x8F, 0x90 and 0x9D are undefined, the others of
  0x80 to 0x9F have their own code points, the rest is Latin-1.
\<close>

definition cp1252_high :: "(nat \<times> nat) list" where
  "cp1252_high =
     [(0x80, 0x20AC), (0x82, 0x201A), (0x83, 0x0192), (0x84, 0x201E), (0x85, 0x2026),
      (0x86, 0x2020), (0x87, 0x2021), (0x88, 0x02C6), (0x89, 0x2030), (0x8A, 0x0160),
      (0x8B, 0x2039), (0x8C, 0x0152), (0x8E, 0x017D), (0x91, 0x2018), (0x92, 0x2019),
      (0x93, 0x201C), (0x94, 0x201D), (0x95, 0x2022), (0x96, 0x2013), (0x97, 0x2014),
      (0x98, 0x02DC), (0x99, 0x2122), (0x9A, 0x0161), (0x9B, 0x203A), (0x9C, 0x0153),
      (0x9E, 0x017E), (0x9F, 0x0178)]"

definition cp1252_char :: "byte \<Rightarrow> nat option" where
  "cp1252_char b =
     (let n = unat b in
      if n < 0x80 \<or> 0xA0 \<le> n then Some n else map_of cp1252_high n)"

fun cp1252_decode :: "byte list \<Rightarrow> nat list option" where
  "cp1252_decode [] = Some []"
| "cp1252_decode (b # bs) =
     (case cp1252_char b of
        None \<Rightarrow> None
      | Some c \<Rightarrow> cons_opt c (cp1252_decode bs))"

definition decode :: "string \<Rightarrow> byte list \<Rightarrow> exn + nat list" where
  "decode encoding bs =
     (if encoding = ''utf-8'' then
        (case utf8_decode bs of None \<Rightarrow> Inl UnicodeDecodeError | Some t \<Rightarrow> Inr t)
      else if encoding = ''latin1'' \<or> encoding = ''ISO-8859-1'' then
        Inr (latin1_decode bs)
      else if encoding = ''cp1252'' then
        (case cp1252_decode bs of None \<Rightarrow> Inl UnicodeDecodeError | Some t \<Rightarrow> Inr t)
      else Inl (LookupError encoding))"

text \<open>
  \<^verbatim>\<open>pd.read_csv\<close> on the bytes \<open>bs\<close> of the file: decode, then parse the text. The
  parser is the library's; it sees decoded text only.
\<close>

definition read_csv :: "(nat list \<Rightarrow> exn + 'd) \<Rightarrow> byte list \<Rightarrow> string \<Rightarrow> exn + 'd" where
  "read_csv parse bs encoding =
     (case decode encoding bs of Inl e \<Rightarrow> Inl e | Inr t \<Rightarrow> parse t)"

subsection \<open>Loading: the stage itself\<close>

definition encodings :: "string list" where
  "encodings = [''utf-8'', ''latin1'', ''ISO-8859-1'', ''cp1252'']"

definition encoding_msg :: string where
  "encoding_msg = ''No se pudo determinar la codificaci'' @ [CHR 0xF3] @ ''n del archivo''"

text \<open>
  The \<^verbatim>\<open>for encoding in encodings: try ... break / except UnicodeDecodeError: continue /
  else: raise ValueError\<close> loop. Only \<^verbatim>\<open>UnicodeDecodeError\<close> is caught inside the loop;
  any other exception leaves it.
\<close>

fun try_encodings :: "(string \<Rightarrow> exn + 'd) \<Rightarrow> string list \<Rightarrow> exn + 'd" where
  "try_encodings rd [] = Inl (ValueError encoding_msg)"
| "try_encodings rd (encoding # rest) =
     (case rd encoding of
        Inr df \<Rightarrow> Inr df
      | Inl UnicodeDecodeError \<Rightarrow> try_encodings rd rest
      | Inl e \<Rightarrow> Inl e)"

text \<open>
  The body of the first \<^verbatim>\<open>try\<close>. \<open>exists\<close> is \<^verbatim>\<open>data_path.exists()\<close>, \<open>suffix\<close> is
  \<^verbatim>\<open>data_path.suffix\<close>, \<open>read_excel\<close> what \<^verbatim>\<open>pd.read_excel\<close> gives and \<open>rd\<close> what
  \<^verbatim>\<open>pd.read_csv\<close> gives per encoding. An \<open>Inl\<close> is printed to the error stream and
  ends the process with status 1.
\<close>

definition load_data ::
  "bool \<Rightarrow> string \<Rightarrow> string \<Rightarrow> (exn + 'd) \<Rightarrow> (string \<Rightarrow> exn + 'd) \<Rightarrow> exn + 'd" where
  "load_data exists data_path suffix read_excel rd =
     (if \<not> exists then
        Inl (FileNotFoundError (''No se encontr'' @ [CHR 0xF3] @ '' el archivo en la ruta: '' @ data_path))
      else if suffix = ''.xls'' \<or> suffix = ''.xlsx'' then read_excel
      else try_encodings rd encodings)"

subsection \<open>Preparation: canonical column names\<close>

text \<open>
  \<^verbatim>\<open>df.columns = [c.strip().lower().replace(' ', '_').replace('-', '_') for c in df.columns]\<close>

  \<open>isspace\<close> is \<^verbatim>\<open>str.isspace\<close> and \<open>lower_char\<close> is \<^verbatim>\<open>str.lower\<close> on the code points 0
  to 255; the lower-case form of each of them is again below 256.
\<close>

definition isspace :: "char \<Rightarrow> bool" where
  "isspace c =
     (let n = (of_char c :: nat)
      in (9 \<le> n \<and> n \<le> 13) \<or> (28 \<le> n \<and> n \<le> 32) \<or> n = 0x85 \<or> n = 0xA0)"

definition strip :: "string \<Rightarrow> string" where
  "strip s = rev (dropWhile isspace (rev (dropWhile isspace s)))"

definition is_upper :: "char \<Rightarrow> bool" where
  "is_upper c =
     (let n = (of_char c :: nat)
      in (0x41 \<le> n \<and> n \<le> 0x5A) \<or> (0xC0 \<le> n \<and> n \<le> 0xDE \<and> n \<noteq> 0xD7))"

definition lower_char :: "char \<Rightarrow> char" where
  "lower_char c = (if is_upper c then char_of ((of_char c :: nat) + 32) else c)"

definition lower :: "string \<Rightarrow> string" where
  "lower s = map lower_char s"

text \<open>\<^verbatim>\<open>str.replace\<close> of one character by one character.\<close>

definition replace :: "char \<Rightarrow> char \<Rightarrow> string \<Rightarrow> string" where
  "replace old new s = map (\<lambda>c. if c = old then new else c) s"

definition normalize_column :: "string \<Rightarrow> string" where
  "normalize_column c =
     replace CHR ''-'' CHR ''_'' (replace CHR '' '' CHR ''_'' (lower (strip c)))"

text \<open>What the three character-wise steps after \<open>strip\<close> do to one character.\<close>

definition canon_char :: "char \<Rightarrow> char" where
  "canon_char c =
     (let l = lower_char c in if l = CHR '' '' \<or> l = CHR ''-'' then CHR ''_'' else l)"

subsection \<open>The prepared dataset\<close>

text \<open>
  A \<^verbatim>\<open>DataFrame\<close> is its columns in order, each a name and its cells; column
  names are distinct and all columns have the same length. \<open>Null\<close> is the missing
  value (\<^verbatim>\<open>NaN\<close>, \<^verbatim>\<open>NaT\<close>), \<open>Ts\<close> a timestamp. The stages after the
  preparation read the dataset as the preparation left it: the cells of
  \<^verbatim>\<open>sales\<close> and \<^verbatim>\<open>profit\<close> are numbers or missing.
\<close>

datatype cell = Num rat | Txt string | Ts nat | Null

type_synonym dataframe = "(string \<times> cell list) list"

definition columns :: "dataframe \<Rightarrow> string list" where
  "columns df = map fst df"

text \<open>\<^verbatim>\<open>df.columns = [...]\<close>: the columns keep their cells and get the new names.\<close>

definition rename_columns :: "dataframe \<Rightarrow> dataframe" where
  "rename_columns df = zip (map normalize_column (columns df)) (map snd df)"

text \<open>
  \<^verbatim>\<open>df[c]\<close>. The script reads a column only behind a test \<^verbatim>\<open>c in df.columns\<close>, so
  the \<^verbatim>\<open>KeyError\<close> of an absent column never arises; the model gives the empty column
  there.
\<close>

definition col :: "dataframe \<Rightarrow> string \<Rightarrow> cell list" where
  "col df c = (case map_of df c of Some xs \<Rightarrow> xs | None \<Rightarrow> [])"

fun num_of :: "cell \<Rightarrow> rat" where
  "num_of (Num r) = r"
| "num_of other = 0"

text \<open>\<^verbatim>\<open>Series.sum()\<close>: missing values are skipped, the sum of nothing is 0.\<close>

definition series_sum :: "cell list \<Rightarrow> rat" where
  "series_sum xs = sum_list (map num_of xs)"

subsection \<open>KPIs\<close>

datatype kpi = KNum rat | KStr string

definition round_half_even :: "rat \<Rightarrow> int" where
  "round_half_even x =
     (let f = \<lfloor>x\<rfloor>; d = x - of_int f
      in if d < 1 / 2 then f
         else if 1 / 2 < d then f + 1
         else if even f then f else f + 1)"

definition digit :: "nat \<Rightarrow> char" where
  "digit d = ''0123456789'' ! d"

function digits :: "nat \<Rightarrow> string" where
  "digits n = (if n < 10 then [digit n] else digits (n div 10) @ [digit (n mod 10)])"
  by pat_completeness auto
termination
  by (relation "measure id") auto

text \<open>
  \<open>fixed2 neg h\<close> writes \<open>h\<close> hundredths with two decimal places, and
  \<open>format_pct x\<close> is \<^verbatim>\<open>f"{x:.2%}"\<close>: one hundred times \<open>x\<close>, rounded to two places
  (ties to even), followed by the percent sign.
\<close>

definition fixed2 :: "bool \<Rightarrow> nat \<Rightarrow> string" where
  "fixed2 neg h =
     (if neg then ''-'' else []) @ digits (h div 100) @ ''.''
       @ [digit (h div 10 mod 10), digit (h mod 10)]"

definition format_pct :: "rat \<Rightarrow> string" where
  "format_pct x = fixed2 (x < 0) (nat \<bar>round_half_even (x * 100 * 100)\<bar>) @ ''%''"

text \<open>
  The body of the KPI stage. \<^verbatim>\<open>kpis\<close> is a dictionary filled in this order;
  \<open>None\<close> for \<open>profit_margin\<close> is \<^verbatim>\<open>np.nan\<close>.
\<close>

definition compute_kpis :: "dataframe \<Rightarrow> (string \<times> kpi) list" where
  "compute_kpis df =
     (if ''sales'' \<in> set (columns df) then
        (let total_sales = series_sum (col df ''sales'');
             kpis = [(''Total Sales'', KNum total_sales)]
         in if ''profit'' \<in> set (columns df) then
              (let total_profit = series_sum (col df ''profit'');
                   profit_margin =
                     (if total_sales \<noteq> 0 then Some (total_profit / total_sales) else None)
               in kpis @
                  [(''Total Profit'', KNum total_profit),
                   (''Profit Margin'',
                      (case profit_margin of
                         Some m \<Rightarrow> KStr (format_pct m)
                       | None \<Rightarrow> KStr ''N/A''))])
            else kpis)
      else [])"

subsection \<open>Aggregations\<close>

text \<open>
  The rows a \<^verbatim>\<open>groupby\<close> sees: for each row of the dataset the cells of the key columns
  and the cell of the measure.
\<close>

fun key_rows :: "cell list list \<Rightarrow> cell list list" where
  "key_rows [] = []"
| "key_rows [c] = map (\<lambda>x. [x]) c"
| "key_rows (c # cs) = map2 (#) c (key_rows cs)"

definition records :: "dataframe \<Rightarrow> string list \<Rightarrow> string \<Rightarrow> (cell list \<times> cell) list" where
  "records df by val = zip (key_rows (map (col df) by)) (col df val)"

text \<open>
  The order of group keys: numbers by value, timestamps by time, text by code point,
  key tuples lexicographically.
\<close>

fun cell_rank :: "cell \<Rightarrow> nat \<times> rat \<times> string" where
  "cell_rank (Num r) = (0, r, [])"
| "cell_rank (Ts n) = (1, of_nat n, [])"
| "cell_rank (Txt s) = (2, 0, s)"
| "cell_rank Null = (3, 0, [])"

text \<open>
  \<^verbatim>\<open>df.groupby(by, as_index=False)[val].sum()\<close> with the defaults \<^verbatim>\<open>sort=True\<close> and
  \<^verbatim>\<open>dropna=True\<close>: rows with a missing key are dropped, there is one row per distinct
  key, the keys come in ascending order, and each sum skips missing values.
\<close>

definition groupby_sum :: "(cell list \<times> cell) list \<Rightarrow> (cell list \<times> rat) list" where
  "groupby_sum recs =
     (let live = filter (\<lambda>r. Null \<notin> set (fst r)) recs;
          keys = sort_key (map cell_rank) (remdups (map fst live))
      in map (\<lambda>k. (k, series_sum (map snd (filter (\<lambda>r. fst r = k) live)))) keys)"

text \<open>
  Named aggregation, \<^verbatim>\<open>.agg(name=(column, func), ...)\<close>: pandas accepts the keywords
  only when every value is a pair \<^verbatim>\<open>(column, func)\<close>; otherwise no \<^verbatim>\<open>func\<close> was
  given and it raises \<^verbatim>\<open>TypeError\<close>. The script's only \<^verbatim>\<open>func\<close> is \<^verbatim>\<open>'sum'\<close>.
\<close>

type_synonym named_agg = "string \<times> (string \<times> string) option"

definition agg_msg :: string where
  "agg_msg = ''Must provide 'func' or tuples of '(column, aggfunc).''"

definition sum_of :: "(cell list \<times> rat) list \<Rightarrow> cell list \<Rightarrow> rat" where
  "sum_of t k = (case map_of t k of Some v \<Rightarrow> v | None \<Rightarrow> 0)"

definition agg_table ::
  "dataframe \<Rightarrow> string list \<Rightarrow> string list \<Rightarrow> (cell list \<times> rat list) list" where
  "agg_table df by cols =
     (let tabs = map (\<lambda>c. groupby_sum (records df by c)) cols
      in case tabs of
           [] \<Rightarrow> []
         | t # rest \<Rightarrow> map (\<lambda>k. (k, map (\<lambda>t. sum_of t k) tabs)) (map fst t))"

definition agg ::
  "dataframe \<Rightarrow> string list \<Rightarrow> named_agg list \<Rightarrow> exn + (cell list \<times> rat list) list" where
  "agg df by kwargs =
     (if kwargs = [] \<or> None \<in> set (map snd kwargs) then Inl (TypeError agg_msg)
      else Inr (agg_table df by
             (concat (map (\<lambda>kw. case snd kw of None \<Rightarrow> [] | Some cf \<Rightarrow> [fst cf]) kwargs))))"

text \<open>
  \<^verbatim>\<open>by_month = df.groupby('year_month', as_index=False).agg(sales=('sales', 'sum'),
  profit=('profit', 'sum') if 'profit' in df.columns else None)\<close>
\<close>

definition by_month :: "dataframe \<Rightarrow> exn + (cell list \<times> rat list) list" where
  "by_month df =
     agg df [''year_month'']
       [(''sales'', Some (''sales'', ''sum'')),
        (''profit'', if ''profit'' \<in> set (columns df) then Some (''profit'', ''sum'') else None)]"

text \<open>
  What the script takes from its libraries in the visualisation stage:
  \<^item> \<open>quicksort\<close>, the ascending sort by the summed sales behind \<^verbatim>\<open>sort_values\<close>
    (default \<^verbatim>\<open>kind='quicksort'\<close>, whose order of equal values pandas leaves open);
  \<^item> \<open>render\<close>, what plotting a chart and writing it to the named file does: it
    succeeds, or raises before the file is written (\<^verbatim>\<open>px.line\<close>, \<^verbatim>\<open>px.bar\<close>,
    \<^verbatim>\<open>update_layout\<close>, \<^verbatim>\<open>write_html\<close>), or raises after (\<^verbatim>\<open>fig.show()\<close>).
\<close>

datatype render_outcome = Rendered | RaisedBeforeWrite exn | RaisedAfterWrite exn

record env =
  quicksort :: "(cell list \<times> rat) list \<Rightarrow> (cell list \<times> rat) list"
  render :: "string \<Rightarrow> render_outcome"

text \<open>
  \<^verbatim>\<open>sort_values('sales', ascending=False)\<close>: pandas reverses the rows, sorts them ascending
  and reverses the result. \<^verbatim>\<open>head(20)\<close> keeps the first 20 rows.
\<close>

definition sort_values_desc :: "env \<Rightarrow> (cell list \<times> rat) list \<Rightarrow> (cell list \<times> rat) list" where
  "sort_values_desc e rows = rev (quicksort e (rev rows))"

definition head :: "nat \<Rightarrow> 'a list \<Rightarrow> 'a list" where
  "head n xs = take n xs"

text \<open>The second recipe; \<open>None\<close> when a column it needs is absent.\<close>

definition top_subcategories :: "env \<Rightarrow> dataframe \<Rightarrow> (cell list \<times> rat) list option" where
  "top_subcategories e df =
     (if list_all (\<lambda>c. c \<in> set (columns df)) [''category'', ''sub_category'', ''sales''] then
        (let cat = groupby_sum (records df [''category'', ''sub_category''] ''sales'')
         in Some (head 20 (sort_values_desc e cat)))
      else None)"

text \<open>The third recipe.\<close>

definition group_cols :: "dataframe \<Rightarrow> string list" where
  "group_cols df = filter (\<lambda>c. c \<in> set (columns df)) [''region'', ''segment'']"

definition by_region :: "dataframe \<Rightarrow> (cell list \<times> rat) list option" where
  "by_region df =
     (if group_cols df \<noteq> [] \<and> ''sales'' \<in> set (columns df) then
        Some (groupby_sum (records df (group_cols df) ''sales''))
      else None)"



subsection \<open>The visualisation stage\<close>

datatype diagnostic = VizError exn | NoChartsFound | DashError exn

text \<open>
  A chart step takes the files written so far and gives the exception it raised, if
  any, and the files written after it.
\<close>

definition render_chart :: "env \<Rightarrow> string \<Rightarrow> string list \<Rightarrow> exn option \<times> string list" where
  "render_chart e file written =
     (case render e file of
        Rendered \<Rightarrow> (None, written @ [file])
      | RaisedBeforeWrite x \<Rightarrow> (Some x, written)
      | RaisedAfterWrite x \<Rightarrow> (Some x, written @ [file]))"

definition chart_monthly :: "env \<Rightarrow> dataframe \<Rightarrow> string list \<Rightarrow> exn option \<times> string list" where
  "chart_monthly e df written =
     (if ''year_month'' \<in> set (columns df) \<and> ''sales'' \<in> set (columns df) then
        (case by_month df of
           Inl x \<Rightarrow> (Some x, written)
         | Inr t \<Rightarrow> render_chart e ''ventas_por_mes.html'' written)
      else (None, written))"

definition chart_subcategories ::
  "env \<Rightarrow> dataframe \<Rightarrow> string list \<Rightarrow> exn option \<times> string list" where
  "chart_subcategories e df written =
     (case top_subcategories e df of
        Some cat \<Rightarrow> render_chart e ''top_subcategorias.html'' written
      | None \<Rightarrow> (None, written))"

definition chart_region :: "env \<Rightarrow> dataframe \<Rightarrow> string list \<Rightarrow> exn option \<times> string list" where
  "chart_region e df written =
     (case by_region df of
        Some reg \<Rightarrow> render_chart e ''ventas_por_region.html'' written
      | None \<Rightarrow> (None, written))"

text \<open>
  The three steps run in one \<^verbatim>\<open>try\<close>; its one \<^verbatim>\<open>except Exception\<close> prints a
  diagnostic. The result is the files written and the diagnostics.
\<close>

definition visualizations :: "env \<Rightarrow> dataframe \<Rightarrow> string list \<times> diagnostic list" where
  "visualizations e df =
     (case chart_monthly e df [] of
        (Some x, w) \<Rightarrow> (w, [VizError x])
      | (None, w1) \<Rightarrow>
          (case chart_subcategories e df w1 of
             (Some x, w) \<Rightarrow> (w, [VizError x])
           | (None, w2) \<Rightarrow>
               (case chart_region e df w2 of
                  (Some x, w) \<Rightarrow> (w, [VizError x])
                | (None, w3) \<Rightarrow> (w3, []))))"

subsection \<open>The dashboard stage\<close>

text \<open>
  \<^verbatim>\<open>Path('.').glob('*.html')\<close> without the dashboard itself. \<open>listing\<close> is the working
  directory as the operating system enumerates it; \<^verbatim>\<open>glob\<close> keeps that order.
\<close>

definition ends_with :: "string \<Rightarrow> string \<Rightarrow> bool" where
  "ends_with suf s = (length suf \<le> length s \<and> drop (length s - length suf) s = suf)"

definition html_files :: "string list \<Rightarrow> string list" where
  "html_files listing =
     filter (\<lambda>p. ends_with ''.html'' p \<and> p \<noteq> ''dashboard_superstore.html'') listing"

text \<open>\<^verbatim>\<open>p.stem\<close>: the name without its last suffix.\<close>

definition stem :: "string \<Rightarrow> string" where
  "stem name =
     (let r = dropWhile (\<lambda>c. c \<noteq> CHR ''.'') (rev name)
      in if 1 < length r \<and> length r < length name then rev (tl r) else name)"

text \<open>
  \<^verbatim>\<open>str.title\<close>, for the letters whose two cases both lie below code point 256.
\<close>

definition is_lower :: "char \<Rightarrow> bool" where
  "is_lower c =
     (let n = (of_char c :: nat)
      in (0x61 \<le> n \<and> n \<le> 0x7A) \<or> (0xE0 \<le> n \<and> n \<le> 0xFE \<and> n \<noteq> 0xF7))"

definition upper_char :: "char \<Rightarrow> char" where
  "upper_char c = (if is_lower c then char_of ((of_char c :: nat) - 32) else c)"

definition title_char :: "bool \<Rightarrow> char \<Rightarrow> char" where
  "title_char previous_is_cased c =
     (if is_lower c then (if previous_is_cased then c else upper_char c)
      else if is_upper c then (if previous_is_cased then lower_char c else c)
      else c)"

fun title_from :: "bool \<Rightarrow> string \<Rightarrow> string" where
  "title_from previous_is_cased [] = []"
| "title_from previous_is_cased (c # cs) =
     title_char previous_is_cased c # title_from (is_lower c \<or> is_upper c) cs"

definition title :: "string \<Rightarrow> string" where
  "title s = title_from False s"

text \<open>
  The document is the list \<^verbatim>\<open>parts\<close>, one element per appended line. A heading
  carries the code point of its pictograph, a KPI paragraph its label and value, an
  \<^verbatim>\<open>iframe\<close> the file it shows.
\<close>

datatype part =
    Line string
  | H1 nat string
  | H2 nat string
  | KpiPar string kpi
  | Iframe string

definition header :: "part list" where
  \<open>header =
     [Line ''<!DOCTYPE html>'',
      Line ''<html lang="es">'',
      Line ''<head>'',
      Line ''<meta charset="UTF-8">'',
      Line ''<title>Dashboard Superstore</title>'',
      Line ''<style>'',
      Line ''body { font-family: Arial, sans-serif; margin: 20px; }'',
      Line ''h1 { color: #2c3e50; }'',
      Line ''h2 { color: #3498db; margin-top: 30px; }'',
      Line ''.kpi-box { background: #f8f9fa; padding: 15px; border-radius: 5px; margin: 10px 0; }'',
      Line ''</style>'',
      Line ''</head>'',
      Line ''<body>'',
      H1 0x1F4CA ''Dashboard Superstore'']\<close>

definition kpi_open :: part where
  \<open>kpi_open = Line ''<div class="kpi-box">''\<close>

definition kpi_section :: "(string \<times> kpi) list \<Rightarrow> part list" where
  "kpi_section kpis =
     [kpi_open, H2 0x1F50D ''KPIs Principales'']
       @ map (\<lambda>kv. KpiPar (fst kv) (snd kv)) kpis @ [Line ''</div>'']"

definition chart_section :: "string \<Rightarrow> part list" where
  "chart_section p =
     (let chart_name = title (replace CHR ''_'' CHR '' '' (stem p))
      in [H2 0x1F4C8 chart_name, Iframe p])"

definition dashboard_parts :: "(string \<times> kpi) list \<Rightarrow> string list \<Rightarrow> part list" where
  "dashboard_parts kpis files =
     header @ kpi_section kpis @ concat (map chart_section files)
       @ [Line ''</body>'', Line ''</html>'']"

text \<open>
  The body of the last \<^verbatim>\<open>try\<close>. \<open>wr\<close> is what opening and writing
  \<^verbatim>\<open>dashboard_superstore.html\<close> raises, if anything. The result is the document
  written, if one is, and the diagnostics.
\<close>

definition dashboard ::
  "exn option \<Rightarrow> (string \<times> kpi) list \<Rightarrow> string list \<Rightarrow> part list option \<times> diagnostic list" where
  "dashboard wr kpis listing =
     (if html_files listing \<noteq> [] then
        (case wr of
           None \<Rightarrow> (Some (dashboard_parts kpis (html_files listing)), [])
         | Some x \<Rightarrow> (None, [DashError x]))
      else (None, [NoChartsFound]))"

fun is_iframe :: "part \<Rightarrow> bool" where
  "is_iframe (Iframe p) = True"
| "is_iframe other = False"

subsection \<open>Concrete runs\<close>

text \<open>
  Environments and small datasets on which the theorems below are instantiated:
  a stable sort and a sort that reverses equal sums, each with a renderer that always
  succeeds, a renderer that raises on one chart file, a dataset with every column the
  recipes look for, one without \<^verbatim>\<open>profit\<close>, one whose sales sum to zero, two
  datasets with the same rows in different order whose two groups have equal sums, the
  bytes of a Latin-1 text that is not UTF-8, and a directory listing.
\<close>

definition stable_env :: env where
  "stable_env = \<lparr>quicksort = sort_key snd, render = (\<lambda>f. Rendered)\<rparr>"



definition scenario_a :: dataframe where
  "scenario_a =
     [(''year_month'', [Ts 24169, Ts 24169, Ts 24170]),
      (''sales'', [Num 100, Num 60, Num 40]),
      (''profit'', [Num 30, Num (-5), Null]),
      (''category'', [Txt ''Technology'', Txt ''Furniture'', Txt ''Technology'']),
      (''sub_category'', [Txt ''Phones'', Txt ''Chairs'', Txt ''Phones'']),
      (''region'', [Txt ''West'', Txt ''East'', Txt ''West'']),
      (''segment'', [Txt ''Consumer'', Txt ''Corporate'', Txt ''Consumer''])]"

definition scenario_b :: dataframe where
  "scenario_b =
     [(''year_month'', [Ts 24169, Ts 24170]),
      (''sales'', [Num 100, Num 40]),
      (''category'', [Txt ''Technology'', Txt ''Furniture'']),
      (''sub_category'', [Txt ''Phones'', Txt ''Chairs'']),
      (''region'', [Txt ''West'', Txt ''East''])]"




definition latin1_bytes :: "byte list" where
  "latin1_bytes = [0x63, 0x61, 0x66, 0xE9]"

definition listing_a :: "string list" where
  "listing_a =
     [''top_subcategorias.html'', ''notes.txt'', ''ventas_por_mes.html'',
      ''dashboard_superstore.html'', ''ventas_por_region.html'']"

section \<open>Properties\<close>

lemmas codec_defs = read_csv_def decode_def cont_def cons_opt_def lo6_def latin1_decode_def
lemmas frame_defs = columns_def col_def series_sum_def records_def

subsection \<open>Loading\<close>

lemma try_encodings_decides:
  "(\<forall>x\<in>set pre. rd x = Inl UnicodeDecodeError) \<Longrightarrow> rd e \<noteq> Inl UnicodeDecodeError \<Longrightarrow>
   try_encodings rd (pre @ e # post) = rd e"
proof (induction pre)
  case Nil
  then show ?case by (cases "rd e") (simp_all split: exn.splits)
next
  case (Cons a pre)
  then show ?case by simp
qed

lemma try_encodings_exhausted:
  "(\<forall>x\<in>set es. rd x = Inl UnicodeDecodeError) \<Longrightarrow>
   try_encodings rd es = Inl (ValueError encoding_msg)"
  by (induction es) simp_all

lemma load_data_text:
  "suffix \<noteq> ''.xls'' \<Longrightarrow> suffix \<noteq> ''.xlsx'' \<Longrightarrow>
   load_data True p suffix xl rd = try_encodings rd encodings"
  by (simp add: load_data_def)

lemma latin1_bytes_utf8:
  "read_csv Inr latin1_bytes ''utf-8'' = (Inl UnicodeDecodeError :: exn + nat list)"
  by (simp add: latin1_bytes_def codec_defs)

lemma latin1_bytes_latin1:
  "read_csv Inr latin1_bytes ''latin1'' = (Inr [0x63, 0x61, 0x66, 0xE9] :: exn + nat list)"
  by (simp add: latin1_bytes_def codec_defs)

text \<open>
  Claim C6. For a delimited-text file (any suffix but \<^verbatim>\<open>.xls\<close> and \<^verbatim>\<open>.xlsx\<close>) the
  loader tries the encodings \<^verbatim>\<open>utf-8\<close>, \<^verbatim>\<open>latin1\<close>, \<^verbatim>\<open>ISO-8859-1\<close>,
  \<^verbatim>\<open>cp1252\<close> in this order. The first encoding \<open>e\<close> that raises no decoding error
  is accepted: the loader's result is the result of parsing under \<open>e\<close>, so the
  dataset \<open>d\<close> when \<open>e\<close> parses to \<open>d\<close>. When every encoding raises a decoding
  error, the loader raises the \<^verbatim>\<open>ValueError\<close> that says the encoding could not be
  determined, and returns no dataset.
\<close>

theorem loader_accepts_first_decodable:
  assumes "suffix \<noteq> ''.xls''" and "suffix \<noteq> ''.xlsx''"
  shows "encodings = [''utf-8'', ''latin1'', ''ISO-8859-1'', ''cp1252'']
   \<and> (encodings = pre @ e # post \<and> (\<forall>x\<in>set pre. rd x = Inl UnicodeDecodeError)
        \<and> rd e \<noteq> Inl UnicodeDecodeError
        \<longrightarrow> load_data True p suffix xl rd = rd e \<and> (rd e = Inr d \<longrightarrow>
              load_data True p suffix xl rd = Inr d))
   \<and> ((\<forall>x\<in>set encodings. rd' x = Inl UnicodeDecodeError)
        \<longrightarrow> load_data True p suffix xl rd' = Inl (ValueError encoding_msg))"
proof (intro conjI impI)
  show "encodings = [''utf-8'', ''latin1'', ''ISO-8859-1'', ''cp1252'']"
    by (fact encodings_def)
next
  assume a: "encodings = pre @ e # post \<and> (\<forall>x\<in>set pre. rd x = Inl UnicodeDecodeError)
    \<and> rd e \<noteq> Inl UnicodeDecodeError"
  from a have 1: "encodings = pre @ e # post" by (rule conjunct1)
  from a have 2: "\<forall>x\<in>set pre. rd x = Inl UnicodeDecodeError"
    by (rule conjunct1 [OF conjunct2])
  from a have 3: "rd e \<noteq> Inl UnicodeDecodeError" by (rule conjunct2 [OF conjunct2])
  from 2 3 have "try_encodings rd (pre @ e # post) = rd e" by (rule try_encodings_decides)
  then have "try_encodings rd encodings = rd e" by (simp only: 1)
  then show r: "load_data True p suffix xl rd = rd e"
    by (simp only: load_data_text [OF assms])
  assume "rd e = Inr d"
  with r show "load_data True p suffix xl rd = Inr d" by (simp only:)
next
  assume "\<forall>x\<in>set encodings. rd' x = Inl UnicodeDecodeError"
  then have "try_encodings rd' encodings = Inl (ValueError encoding_msg)"
    by (rule try_encodings_exhausted)
  then show "load_data True p suffix xl rd' = Inl (ValueError encoding_msg)"
    by (simp only: load_data_text [OF assms])
qed

theorem loader_accepts_first_decodable_witness:
  "load_data True ''data/superstore.csv'' ''.csv'' (Inl (OtherError []))
      (read_csv Inr latin1_bytes) = (Inr [0x63, 0x61, 0x66, 0xE9] :: exn + nat list)
   \<and> load_data True ''data/superstore.csv'' ''.csv'' (Inl (OtherError []))
      (\<lambda>e. Inl UnicodeDecodeError) = (Inl (ValueError encoding_msg) :: exn + nat list)"
proof -
  have s: "''.csv'' \<noteq> ''.xls''" "''.csv'' \<noteq> ''.xlsx''" by simp_all
  show ?thesis
    using loader_accepts_first_decodable [OF s, where pre = "[''utf-8'']" and e = "''latin1''"
        and post = "[''ISO-8859-1'', ''cp1252'']" and rd = "read_csv Inr latin1_bytes"
        and d = "[0x63, 0x61, 0x66, 0xE9]" and p = "''data/superstore.csv''"
        and xl = "Inl (OtherError [])" and rd' = "\<lambda>e. Inl UnicodeDecodeError"]
      latin1_bytes_utf8 latin1_bytes_latin1
    by (simp add: encodings_def)
qed






subsection \<open>Canonical column names\<close>

lemma isspace_lower_char: "isspace (lower_char c) = isspace c"
  unfolding lower_char_def is_upper_def isspace_def Let_def by auto

lemma normalize_column_map: "normalize_column s = map canon_char (strip s)"
  by (simp add: normalize_column_def replace_def lower_def canon_char_def Let_def)

lemma canon_char_idem: "canon_char (canon_char c) = canon_char c"
  unfolding canon_char_def lower_char_def is_upper_def Let_def by (auto split: if_splits)

lemma canon_char_space: "\<not> isspace c \<Longrightarrow> \<not> isspace (canon_char c)"
  unfolding canon_char_def Let_def using isspace_lower_char [of c]
  by (auto simp: isspace_def)

lemma strip_fix:
  assumes "s = [] \<or> (\<not> isspace (hd s) \<and> \<not> isspace (last s))"
  shows "strip s = s"
proof (cases "s = []")
  case True
  then show ?thesis by (simp add: strip_def)
next
  case False
  with assms have h: "\<not> isspace (hd s)" and l: "\<not> isspace (last s)" by auto
  from h False have 1: "dropWhile isspace s = s" by (cases s) auto
  from l False have 2: "dropWhile isspace (rev s) = rev s"
    by (cases "rev s") (auto simp: hd_rev [symmetric])
  show ?thesis by (simp add: strip_def 1 2)
qed

lemma last_dropWhile_keep: "dropWhile P xs \<noteq> [] \<Longrightarrow> last (dropWhile P xs) = last xs"
  by (metis last_appendR takeWhile_dropWhile_id)

lemma strip_ends:
  assumes "strip s \<noteq> []"
  shows "\<not> isspace (hd (strip s)) \<and> \<not> isspace (last (strip s))"
proof -
  define t where "t = dropWhile isspace s"
  define u where "u = dropWhile isspace (rev t)"
  have su: "strip s = rev u" by (simp add: strip_def t_def u_def)
  with assms have u: "u \<noteq> []" by simp
  then have t: "t \<noteq> []" by (auto simp: u_def)
  have "\<not> isspace (hd u)" using u unfolding u_def by (rule hd_dropWhile)
  then have A: "\<not> isspace (last (strip s))" using u by (simp add: su last_rev)
  have "last u = last (rev t)" using u unfolding u_def by (rule last_dropWhile_keep)
  then have "last u = hd t" using t by (simp add: last_rev)
  moreover have "\<not> isspace (hd t)" using t unfolding t_def by (rule hd_dropWhile)
  ultimately have B: "\<not> isspace (hd (strip s))" using u by (simp add: su hd_rev)
  from A B show ?thesis by simp
qed

lemma strip_canon: "strip (map canon_char (strip s)) = map canon_char (strip s)"
proof (cases "strip s = []")
  case True
  have "strip [] = []" by (simp add: strip_def)
  with True show ?thesis by simp
next
  case False
  then have "\<not> isspace (hd (strip s)) \<and> \<not> isspace (last (strip s))" by (rule strip_ends)
  with False have "\<not> isspace (hd (map canon_char (strip s))) \<and>
      \<not> isspace (last (map canon_char (strip s)))"
    by (simp add: hd_map last_map canon_char_space)
  then show ?thesis by (intro strip_fix) simp
qed

text \<open>
  Claim C7. Canonicalising a column name (strip the surrounding whitespace, lower the
  case, replace spaces and hyphens by underscores) is idempotent: doing it twice
  gives the same name as doing it once, and so for the whole list of column names.
\<close>

theorem normalize_column_idempotent:
  "normalize_column (normalize_column c) = normalize_column c
   \<and> map normalize_column (map normalize_column cs) = map normalize_column cs"
  by (simp add: normalize_column_map strip_canon canon_char_idem)

subsection \<open>KPIs\<close>


lemma scenario_a_columns:
  "columns scenario_a =
     [''year_month'', ''sales'', ''profit'', ''category'', ''sub_category'', ''region'', ''segment'']"
  by (simp add: scenario_a_def columns_def)

lemma scenario_b_columns:
  "columns scenario_b = [''year_month'', ''sales'', ''category'', ''sub_category'', ''region'']"
  by (simp add: scenario_b_def columns_def)



text \<open>
  Claim C8. For a dataset with a \<^verbatim>\<open>sales\<close> column and no \<^verbatim>\<open>profit\<close> column the
  KPIs are exactly the one entry \<^verbatim>\<open>Total Sales\<close>; the keys \<^verbatim>\<open>Total Profit\<close> and
  \<^verbatim>\<open>Profit Margin\<close> are absent.
\<close>

theorem kpis_without_profit:
  assumes "''sales'' \<in> set (columns df)" and "''profit'' \<notin> set (columns df)"
  shows "compute_kpis df = [(''Total Sales'', KNum (series_sum (col df ''sales'')))]
       \<and> map_of (compute_kpis df) ''Total Profit'' = None
       \<and> map_of (compute_kpis df) ''Profit Margin'' = None"
  using assms by (simp add: compute_kpis_def)

theorem kpis_without_profit_witness:
  "''sales'' \<in> set (columns scenario_b) \<and> ''profit'' \<notin> set (columns scenario_b)
   \<and> compute_kpis scenario_b = [(''Total Sales'', KNum 140)]"
proof -
  have a: "''sales'' \<in> set (columns scenario_b)" by (simp add: scenario_b_columns)
  have b: "''profit'' \<notin> set (columns scenario_b)" by (simp add: scenario_b_columns)
  have s: "series_sum (col scenario_b ''sales'') = 140" by (simp add: scenario_b_def frame_defs)
  show ?thesis using kpis_without_profit [OF a b] a b s by simp
qed

subsection \<open>Top subcategories\<close>








lemma groupby_sum_distinct: "distinct (map fst (groupby_sum recs))"
  by (simp add: groupby_sum_def Let_def comp_def distinct_sort)











subsection \<open>The visualisation stage\<close>

lemma by_month_no_profit:
  "''profit'' \<notin> set (columns df) \<Longrightarrow> by_month df = Inl (TypeError agg_msg)"
  by (simp add: by_month_def agg_def)

text \<open>
  Claim C1: what the code does instead. For every dataset with the columns
  \<^verbatim>\<open>year_month\<close> and \<^verbatim>\<open>sales\<close> and without \<^verbatim>\<open>profit\<close>, the monthly aggregation
  passes \<^verbatim>\<open>profit=None\<close> to \<^verbatim>\<open>agg\<close> and raises \<^verbatim>\<open>TypeError\<close>; the monthly chart is
  not written, and the stage ends there with one diagnostic and no chart at all.
\<close>

theorem monthly_trend_without_profit_raises:
  assumes "''year_month'' \<in> set (columns df)" and "''sales'' \<in> set (columns df)"
    and "''profit'' \<notin> set (columns df)"
  shows "by_month df = Inl (TypeError agg_msg)
       \<and> chart_monthly e df [] = (Some (TypeError agg_msg), [])
       \<and> visualizations e df = ([], [VizError (TypeError agg_msg)])"
  using assms by (simp add: by_month_no_profit chart_monthly_def visualizations_def)

theorem monthly_trend_without_profit_raises_witness:
  "''year_month'' \<in> set (columns scenario_b) \<and> ''sales'' \<in> set (columns scenario_b)
   \<and> ''profit'' \<notin> set (columns scenario_b)
   \<and> visualizations stable_env scenario_b = ([], [VizError (TypeError agg_msg)])"
proof -
  have a: "''year_month'' \<in> set (columns scenario_b)" by (simp add: scenario_b_columns)
  have b: "''sales'' \<in> set (columns scenario_b)" by (simp add: scenario_b_columns)
  have c: "''profit'' \<notin> set (columns scenario_b)" by (simp add: scenario_b_columns)
  show ?thesis
    using a b c monthly_trend_without_profit_raises [OF a b c, of stable_env] by simp
qed













subsection \<open>The dashboard\<close>

lemma iframes_header: "filter is_iframe header = []"
  by (simp add: header_def)

lemma iframes_kpi_section: "filter is_iframe (kpi_section kpis) = []"
  by (induction kpis) (simp_all add: kpi_section_def kpi_open_def)

lemma iframes_chart_sections:
  "filter is_iframe (concat (map chart_section files)) = map Iframe files"
  by (induction files) (simp_all add: chart_section_def Let_def)

lemma kpi_open_header: "filter (\<lambda>p. p = kpi_open) header = []"
  by (simp add: header_def kpi_open_def)

lemma kpi_open_kpi_section: "filter (\<lambda>p. p = kpi_open) (kpi_section kpis) = [kpi_open]"
  by (induction kpis) (simp_all add: kpi_section_def kpi_open_def)

lemma kpi_open_chart_sections:
  "filter (\<lambda>p. p = kpi_open) (concat (map chart_section files)) = []"
  by (induction files) (simp_all add: chart_section_def Let_def kpi_open_def)

lemma dashboard_parts_iframes:
  "filter is_iframe (dashboard_parts kpis files) = map Iframe files"
  by (simp add: dashboard_parts_def iframes_header iframes_kpi_section iframes_chart_sections)

lemma dashboard_parts_one_kpi_section:
  "filter (\<lambda>p. p = kpi_open) (dashboard_parts kpis files) = [kpi_open]"
  by (simp add: dashboard_parts_def kpi_open_header kpi_open_kpi_section kpi_open_chart_sections)
     (simp add: kpi_open_def)

lemma visualizations_all_rendered:
  assumes "''year_month'' \<in> set (columns df)" and "''sales'' \<in> set (columns df)"
    and "''profit'' \<in> set (columns df)" and "''category'' \<in> set (columns df)"
    and "''sub_category'' \<in> set (columns df)" and "''region'' \<in> set (columns df)"
    and "\<And>f. render e f = Rendered"
  shows "visualizations e df
    = ([''ventas_por_mes.html'', ''top_subcategorias.html'', ''ventas_por_region.html''], [])"
proof -
  have 1: "chart_monthly e df [] = (None, [''ventas_por_mes.html''])"
    using assms by (simp add: chart_monthly_def by_month_def agg_def render_chart_def)
  have 2: "chart_subcategories e df [''ventas_por_mes.html'']
      = (None, [''ventas_por_mes.html'', ''top_subcategorias.html''])"
    using assms by (simp add: chart_subcategories_def top_subcategories_def render_chart_def)
  have "group_cols df \<noteq> []" using assms by (simp add: group_cols_def)
  then have 3: "chart_region e df [''ventas_por_mes.html'', ''top_subcategorias.html'']
      = (None, [''ventas_por_mes.html'', ''top_subcategorias.html'', ''ventas_por_region.html''])"
    using assms by (simp add: chart_region_def by_region_def render_chart_def)
  show ?thesis by (simp add: visualizations_def 1 2 3)
qed

lemma stable_env_renders: "render stable_env f = Rendered"
  by (simp add: stable_env_def)

lemma scenario_a_charts:
  "visualizations stable_env scenario_a
     = ([''ventas_por_mes.html'', ''top_subcategorias.html'', ''ventas_por_region.html''], [])"
  by (rule visualizations_all_rendered) (simp_all add: scenario_a_columns stable_env_renders)

lemma listing_a_html:
  "html_files listing_a
     = [''top_subcategorias.html'', ''ventas_por_mes.html'', ''ventas_por_region.html'']"
  by (simp add: listing_a_def html_files_def ends_with_def)

text \<open>
  Claim C4, as amended. In a run where the dataset has the columns of the three
  recipes and every chart renders, the charts are written in the order monthly trend,
  top subcategories, region breakdown. When the HTML files the working directory then
  lists (the dashboard apart) are exactly these three, the report is written and has
  exactly one KPI section followed by exactly three chart sections, one per chart
  file, in the order in which the directory lists the files.
\<close>

theorem dashboard_sections_follow_listing:
  assumes "''year_month'' \<in> set (columns df)" and "''sales'' \<in> set (columns df)"
    and "''profit'' \<in> set (columns df)" and "''category'' \<in> set (columns df)"
    and "''sub_category'' \<in> set (columns df)" and "''region'' \<in> set (columns df)"
    and "\<And>f. render e f = Rendered"
    and "mset (html_files listing) = mset (fst (visualizations e df))"
  shows "fst (visualizations e df)
           = [''ventas_por_mes.html'', ''top_subcategorias.html'', ''ventas_por_region.html'']
       \<and> (\<exists>doc pre. dashboard None (compute_kpis df) listing = (Some doc, [])
            \<and> filter (\<lambda>p. p = kpi_open) doc = [kpi_open]
            \<and> length (filter is_iframe doc) = 3
            \<and> filter is_iframe doc = map Iframe (html_files listing)
            \<and> doc = pre @ concat (map chart_section (html_files listing))
                      @ [Line ''</body>'', Line ''</html>'']
            \<and> kpi_open \<in> set pre \<and> filter is_iframe pre = [])"
proof -
  let ?files = "html_files listing"
  let ?doc = "dashboard_parts (compute_kpis df) ?files"
  let ?pre = "header @ kpi_section (compute_kpis df)"
  have v: "visualizations e df
      = ([''ventas_por_mes.html'', ''top_subcategorias.html'', ''ventas_por_region.html''], [])"
    using assms(1-7) by (rule visualizations_all_rendered)
  with assms(8) have m: "mset ?files
      = mset [''ventas_por_mes.html'', ''top_subcategorias.html'', ''ventas_por_region.html'']"
    by simp
  then have "length ?files = 3" using mset_eq_length by fastforce
  then have ne: "?files \<noteq> []" and three: "length (filter is_iframe ?doc) = 3"
    by (auto simp: dashboard_parts_iframes)
  have d: "dashboard None (compute_kpis df) listing = (Some ?doc, [])"
    using ne by (simp add: dashboard_def)
  have p: "?doc = ?pre @ concat (map chart_section ?files) @ [Line ''</body>'', Line ''</html>'']"
    by (simp add: dashboard_parts_def)
  have k: "kpi_open \<in> set ?pre" by (simp add: kpi_section_def)
  have i: "filter is_iframe ?pre = []" by (simp add: iframes_header iframes_kpi_section)
  have f: "filter is_iframe ?doc = map Iframe ?files" by (rule dashboard_parts_iframes)
  have o: "filter (\<lambda>p. p = kpi_open) ?doc = [kpi_open]"
    by (rule dashboard_parts_one_kpi_section)
  have "\<exists>doc pre. dashboard None (compute_kpis df) listing = (Some doc, [])
            \<and> filter (\<lambda>p. p = kpi_open) doc = [kpi_open]
            \<and> length (filter is_iframe doc) = 3
            \<and> filter is_iframe doc = map Iframe (html_files listing)
            \<and> doc = pre @ concat (map chart_section (html_files listing))
                      @ [Line ''</body>'', Line ''</html>'']
            \<and> kpi_open \<in> set pre \<and> filter is_iframe pre = []"
    using d o three f p k i by blast
  with v show ?thesis by simp
qed

theorem dashboard_sections_follow_listing_witness:
  "mset (html_files listing_a) = mset (fst (visualizations stable_env scenario_a))
   \<and> (\<exists>doc. dashboard None (compute_kpis scenario_a) listing_a = (Some doc, [])
        \<and> filter (\<lambda>p. p = kpi_open) doc = [kpi_open]
        \<and> filter is_iframe doc
            = [Iframe ''top_subcategorias.html'', Iframe ''ventas_por_mes.html'',
               Iframe ''ventas_por_region.html''])"
proof -
  have h: "mset (html_files listing_a) = mset (fst (visualizations stable_env scenario_a))"
    by (simp add: listing_a_html scenario_a_charts)
  have c: "''year_month'' \<in> set (columns scenario_a)" "''sales'' \<in> set (columns scenario_a)"
    "''profit'' \<in> set (columns scenario_a)" "''category'' \<in> set (columns scenario_a)"
    "''sub_category'' \<in> set (columns scenario_a)" "''region'' \<in> set (columns scenario_a)"
    by (simp_all add: scenario_a_columns)
  from dashboard_sections_follow_listing [OF c stable_env_renders h] h listing_a_html
  show ?thesis by auto
qed

text \<open>
  Claim C4 as stated fails. The charts of \<open>scenario_a\<close> are produced in the order
  monthly, subcategories, region; with the directory listing \<open>listing_a\<close> the report
  is written with the chart sections in the order subcategories, monthly, region.
\<close>

theorem chart_sections_not_in_production_order_counterexample:
  "fst (visualizations stable_env scenario_a)
      = [''ventas_por_mes.html'', ''top_subcategorias.html'', ''ventas_por_region.html'']
   \<and> fst (dashboard None (compute_kpis scenario_a) listing_a)
      = Some (dashboard_parts (compute_kpis scenario_a) (html_files listing_a))
   \<and> filter is_iframe (dashboard_parts (compute_kpis scenario_a) (html_files listing_a))
      = [Iframe ''top_subcategorias.html'', Iframe ''ventas_por_mes.html'',
         Iframe ''ventas_por_region.html'']"
  by (simp add: scenario_a_charts dashboard_parts_iframes dashboard_def listing_a_html)



end
